theory Spec2Isabelle
  imports Main "HOL-Library.Word" "HOL-Library.Log_Nat" "HOL-Library.Multiset"
begin

unbundle bit_operations_syntax

section \<open>Collector configuration and the enablement policy\<close>

text \<open>
  \<^verbatim>\<open>CollectorConfig\<close> (collector/wiredtiger.go, second unit, lines 288-293). A Go
  \<^verbatim>\<open>map[string]string\<close> has unique keys and no iteration order, so \<open>CustomLabels\<close> is
  a partial function; the two metric lists are slices and stay lists.
\<close>

record CollectorConfig =
  CustomLabels :: "string \<rightharpoonup> string"
  EnabledMetrics :: "string list"
  DisabledMetrics :: "string list"

text \<open>
  The loop \<^verbatim>\<open>for _, x := range xs { if x == metricName { return ... } }\<close>: it leaves
  at the first element equal to the name.
\<close>

fun rangeHits :: "string list \<Rightarrow> string \<Rightarrow> bool" where
  "rangeHits [] metricName = False"
| "rangeHits (x # xs) metricName = (if x = metricName then True else rangeHits xs metricName)"

text \<open>\<^verbatim>\<open>BaseCollector.isMetricEnabled\<close> (lines 327-345).\<close>

definition BaseCollector_isMetricEnabled :: "CollectorConfig \<Rightarrow> string \<Rightarrow> bool" where
  "BaseCollector_isMetricEnabled config metricName =
     (if rangeHits (DisabledMetrics config) metricName then False
      else if length (EnabledMetrics config) = 0 then True
      else if rangeHits (EnabledMetrics config) metricName then True
      else False)"

text \<open>\<^verbatim>\<open>CollectorManager.isMetricEnabled\<close> (lines 460-478), a second copy of the same code.\<close>

definition CollectorManager_isMetricEnabled :: "CollectorConfig \<Rightarrow> string \<Rightarrow> bool" where
  "CollectorManager_isMetricEnabled config metricName =
     (if rangeHits (DisabledMetrics config) metricName then False
      else if length (EnabledMetrics config) = 0 then True
      else if rangeHits (EnabledMetrics config) metricName then True
      else False)"

section \<open>Floating-point values\<close>

text \<open>
  Go's \<^verbatim>\<open>float64\<close> is IEEE-754 binary64. A value is modelled by its bit pattern (what
  \<^verbatim>\<open>math.Float64bits\<close> returns): bit 63 is the sign, bits 52..62 the biased exponent and
  bits 0..51 the fraction. The operations below are the ones the collectors use:
  comparison with a constant, conversion from an integer and multiplication, the last two
  rounding to nearest with ties to even.
\<close>

type_synonym float64 = "64 word"

definition f64_magnitude :: "float64 \<Rightarrow> nat" where
  "f64_magnitude w = unat (w AND 0x7FFFFFFFFFFFFFFF)"

definition f64_signbit :: "float64 \<Rightarrow> bool" where
  "f64_signbit w = bit w 63"

definition f64_isNaN :: "float64 \<Rightarrow> bool" where
  "f64_isNaN w = (f64_magnitude w > 0x7FF0000000000000)"

definition f64_isInf :: "float64 \<Rightarrow> bool" where
  "f64_isInf w = (f64_magnitude w = 0x7FF0000000000000)"

text \<open>
  The order of the non-NaN values is the order of their sign-magnitude patterns, with
  \<open>+0\<close> and \<open>-0\<close> equal; every comparison with a NaN operand is false.
\<close>

definition f64_key :: "float64 \<Rightarrow> int" where
  "f64_key w = (if f64_signbit w then - int (f64_magnitude w) else int (f64_magnitude w))"

definition f64_lt :: "float64 \<Rightarrow> float64 \<Rightarrow> bool" where
  "f64_lt a b = (\<not> f64_isNaN a \<and> \<not> f64_isNaN b \<and> f64_key a < f64_key b)"

definition f64_ge :: "float64 \<Rightarrow> float64 \<Rightarrow> bool" where
  "f64_ge a b = (\<not> f64_isNaN a \<and> \<not> f64_isNaN b \<and> f64_key a \<ge> f64_key b)"

definition f64_eq :: "float64 \<Rightarrow> float64 \<Rightarrow> bool" where
  "f64_eq a b = (\<not> f64_isNaN a \<and> \<not> f64_isNaN b \<and> f64_key a = f64_key b)"

text \<open>
  A finite value is \<open>(-1)^sign * f64_mant * 2^f64_expo\<close>; a zero exponent field marks a
  subnormal number (or zero) and has no implicit leading bit.
\<close>

definition f64_mant :: "float64 \<Rightarrow> nat" where
  "f64_mant w = (let m = f64_magnitude w in
     if m div 2 ^ 52 = 0 then m else 2 ^ 52 + m mod 2 ^ 52)"

definition f64_expo :: "float64 \<Rightarrow> int" where
  "f64_expo w = (let m = f64_magnitude w in
     if m div 2 ^ 52 = 0 then - 1074 else int (m div 2 ^ 52) - 1075)"

definition f64_pack :: "bool \<Rightarrow> nat \<Rightarrow> float64" where
  "f64_pack s mag = (if s then word_of_nat mag OR 0x8000000000000000 else word_of_nat mag)"

text \<open>
  \<open>f64_round s m e\<close> is the binary64 value nearest to \<open>(-1)^s * m * 2^e\<close>, a signed
  zero when \<open>m\<close> is zero. \<open>qe\<close> is the
  exponent of the last kept bit (53 bits are kept, fewer in the subnormal range), \<open>r\<close>
  the part that is cut off and \<open>h\<close> half a unit in the last place. Adding the kept bits
  to the exponent field lets a carry out of the fraction step the exponent, and a result
  beyond the largest finite value is infinity.
\<close>

definition f64_round :: "bool \<Rightarrow> nat \<Rightarrow> int \<Rightarrow> float64" where
  "f64_round s m e =
     (if m = 0 then f64_pack s 0 else
      let n = bitlen (int m);
          qe = max (e + n - 53) (- 1074);
          sh = nat (qe - e);
          q = (if qe \<le> e then m * 2 ^ nat (e - qe) else m div 2 ^ sh);
          r = (if qe \<le> e then 0 else m mod 2 ^ sh);
          h = (if qe \<le> e then 1 else 2 ^ (sh - 1));
          M = (if r > h \<or> (r = h \<and> odd q) then q + 1 else q)
      in f64_pack s (min (nat (qe + 1074) * 2 ^ 52 + M) 0x7FF0000000000000))"

definition f64_NaN :: float64 where
  "f64_NaN = 0x7FF8000000000001"

definition f64_posInf :: float64 where
  "f64_posInf = 0x7FF0000000000000"

text \<open>The conversion \<^verbatim>\<open>float64(v)\<close> of an integer.\<close>

definition f64_of_int :: "int \<Rightarrow> float64" where
  "f64_of_int i = f64_round (i < 0) (nat \<bar>i\<bar>) 0"

text \<open>The product \<^verbatim>\<open>a * b\<close>; a NaN result is the quiet NaN \<open>f64_NaN\<close>.\<close>

definition f64_mul :: "float64 \<Rightarrow> float64 \<Rightarrow> float64" where
  "f64_mul a b =
     (let s = (f64_signbit a \<noteq> f64_signbit b) in
      if f64_isNaN a \<or> f64_isNaN b then f64_NaN
      else if f64_isInf a \<or> f64_isInf b then
        (if f64_magnitude a = 0 \<or> f64_magnitude b = 0 then f64_NaN
         else f64_pack s 0x7FF0000000000000)
      else f64_round s (f64_mant a * f64_mant b) (f64_expo a + f64_expo b))"

text \<open>The integer a value denotes, when it is finite and integral.\<close>

definition f64_to_int :: "float64 \<Rightarrow> int option" where
  "f64_to_int w =
     (if f64_isNaN w \<or> f64_isInf w then None
      else let m = int (f64_mant w); e = f64_expo w;
               v = (if e \<ge> 0 then Some (m * 2 ^ nat e)
                    else if m mod 2 ^ nat (- e) = 0 then Some (m div 2 ^ nat (- e))
                    else None)
           in (if f64_signbit w then map_option uminus v else v))"

section \<open>Dynamically typed values\<close>

text \<open>
  A Go \<^verbatim>\<open>interface{}\<close> value as the collectors meet it: the constructor is the dynamic
  type that a type switch or a type assertion tests. \<^verbatim>\<open>bson.M\<close> is a
  \<^verbatim>\<open>map[string]interface{}\<close>, kept as an association list whose first entry for a key
  is the map's entry; \<^verbatim>\<open>bson.A\<close> is a slice. Go's \<^verbatim>\<open>int\<close> is taken at 64 bits.
\<close>

datatype go_value =
    Nil
  | GoString string
  | GoBool bool
  | GoInt8 "8 word"
  | GoInt16 "16 word"
  | GoInt32 "32 word"
  | GoInt64 "64 word"
  | GoInt "64 word"
  | GoUint32 "32 word"
  | GoUint64 "64 word"
  | GoFloat32 "32 word"
  | GoFloat64 float64
  | BsonM "(string \<times> go_value) list"
  | BsonA "go_value list"
  | Timestamp "32 word" "32 word"

type_synonym bsonM = "(string \<times> go_value) list"

text \<open>Indexing \<^verbatim>\<open>m[key]\<close>: the nil interface when the key is missing.\<close>

definition index :: "bsonM \<Rightarrow> string \<Rightarrow> go_value" where
  "index m key = (case map_of m key of None \<Rightarrow> Nil | Some v \<Rightarrow> v)"

section \<open>Value coercion helpers (collector/common.go)\<close>

text \<open>\<^verbatim>\<open>validateMetricValue\<close> (lines 54-62); the pointer is an option.\<close>

definition validateMetricValue :: "float64 option \<Rightarrow> bool" where
  "validateMetricValue value =
     (case value of
        None \<Rightarrow> False
      | Some v \<Rightarrow> if f64_lt v 0 then False else True)"

text \<open>
  \<^verbatim>\<open>safeGetNumericValue\<close> (lines 65-93): a type switch with the four cases
  \<^verbatim>\<open>int64\<close>, \<^verbatim>\<open>int32\<close>, \<^verbatim>\<open>int\<close>, \<^verbatim>\<open>float64\<close> and a default that returns nil.
\<close>

fun safeGetNumericValue :: "go_value \<Rightarrow> float64 option" where
  "safeGetNumericValue (GoInt64 v) = (if sint v < 0 then None else Some (f64_of_int (sint v)))"
| "safeGetNumericValue (GoInt32 v) = (if sint v < 0 then None else Some (f64_of_int (sint v)))"
| "safeGetNumericValue (GoInt v) = (if sint v < 0 then None else Some (f64_of_int (sint v)))"
| "safeGetNumericValue (GoFloat64 v) = (if f64_lt v 0 then None else Some v)"
| "safeGetNumericValue _ = None"

section \<open>Properties\<close>

lemma rangeHits_iff: "rangeHits xs metricName \<longleftrightarrow> metricName \<in> set xs"
  by (induction xs) auto

text \<open>
  C2. Enablement policy: a name on the deny-list is never enabled, whatever the allow-list
  holds; a name off the deny-list is enabled when the allow-list is empty; and with a
  non-empty allow-list it is enabled exactly when it is a member of the allow-list. This
  holds for both copies of the decision.
\<close>

theorem isMetricEnabled_policy:
  "BaseCollector_isMetricEnabled config metricName =
     (if metricName \<in> set (DisabledMetrics config) then False
      else if EnabledMetrics config = [] then True
      else metricName \<in> set (EnabledMetrics config))
   \<and> CollectorManager_isMetricEnabled config metricName =
     (if metricName \<in> set (DisabledMetrics config) then False
      else if EnabledMetrics config = [] then True
      else metricName \<in> set (EnabledMetrics config))"
  by (simp add: BaseCollector_isMetricEnabled_def CollectorManager_isMetricEnabled_def
      rangeHits_iff)

subsection \<open>Integer conversion is exact up to \<open>2^53\<close>\<close>

lemma bitlen_eqI:
  assumes "2 ^ (nat w - 1) \<le> x" "x < 2 ^ nat w" "0 < w"
  shows "bitlen x = w"
  using assms by (auto simp: bitlen_le_iff_power bitlen_ge_iff_power intro!: antisym)

lemmas f64_round_defs = f64_of_int_def f64_round_def f64_pack_def Let_def

lemmas f64_read_defs = f64_to_int_def f64_isNaN_def f64_isInf_def f64_magnitude_def
  f64_signbit_def f64_mant_def f64_expo_def f64_key_def f64_lt_def f64_ge_def f64_eq_def Let_def

lemma f64_magnitude_of_nat:
  assumes "mag < 2 ^ 63"
  shows "f64_magnitude (word_of_nat mag) = mag"
proof -
  have "(0x7FFFFFFFFFFFFFFF :: 64 word) = mask 63" by (simp add: mask_eq_exp_minus_1)
  then have "f64_magnitude (word_of_nat mag) = unat (take_bit 63 (word_of_nat mag :: 64 word))"
    by (simp add: f64_magnitude_def take_bit_eq_mask)
  also have "\<dots> = take_bit 63 mag"
    by (simp add: unsigned_take_bit_eq unsigned_of_nat take_bit_of_nat)
  also have "\<dots> = mag" using assms by (simp add: take_bit_nat_eq_self)
  finally show ?thesis .
qed

lemma f64_signbit_of_nat:
  assumes "mag < 2 ^ 63"
  shows "\<not> f64_signbit (word_of_nat mag)"
proof -
  have "\<not> bit mag 63" using assms
    by (simp add: bit_iff_odd)
  then show ?thesis
    by (simp add: f64_signbit_def bit_simps)
qed

lemma f64_scaled_bounds:
  fixes m :: nat
  assumes "0 < m" "m < 2 ^ 53"
  defines "k \<equiv> nat (53 - bitlen (int m))"
  shows "2 ^ 52 \<le> m * 2 ^ k" "m * 2 ^ k < 2 ^ 53" "k \<le> 52" "bitlen (int m) = 53 - int k"
proof -
  let ?n = "bitlen (int m)"
  have n53: "?n \<le> 53" using assms(2) by (metis less_power_nat_iff_bitlen of_nat_numeral)
  have n1: "1 \<le> ?n" using assms(1)
    by (metis bitlen_eq_zero_iff bitlen_nonneg int_one_le_iff_zero_less
    nless_le of_nat_0_less_iff of_nat_less_0_iff)
  show k52: "k \<le> 52" using n1 by (simp add: k_def)
  show nk: "?n = 53 - int k" using n53 by (simp add: k_def)
  have b: "2 ^ nat (?n - 1) \<le> int m \<and> int m < 2 ^ nat ?n"
    using bitlen_bounds [of "int m"] assms(1) by simp
  have e1: "nat (?n - 1) + k = 52" using n1 n53 by (simp add: k_def)
  have e2: "nat ?n + k = 53" using n1 n53 by (simp add: k_def)
  have "int (2 ^ nat (?n - 1)) \<le> int m" and "int m < int (2 ^ nat ?n)"
    using b by simp_all
  then have lo: "2 ^ nat (?n - 1) \<le> m" and hi: "m < 2 ^ nat ?n"
    by (simp_all only: of_nat_le_iff of_nat_less_iff)
  have "(2::nat) ^ 52 = 2 ^ nat (?n - 1) * 2 ^ k" using e1 by (simp flip: power_add)
  also have "\<dots> \<le> m * 2 ^ k" using lo by simp
  finally show "2 ^ 52 \<le> m * 2 ^ k" .
  have "m * 2 ^ k < 2 ^ nat ?n * 2 ^ k" using hi by simp
  also have "\<dots> = 2 ^ 53" using e2 by (simp flip: power_add)
  finally show "m * 2 ^ k < 2 ^ 53" .
qed

lemma f64_of_int_exact_small:
  fixes m :: nat
  assumes "0 < m" "m < 2 ^ 53"
  shows "f64_to_int (f64_of_int (int m)) = Some (int m)"
proof -
  define k where "k = nat (53 - bitlen (int m))"
  define M where "M = m * 2 ^ k"
  define mag where "mag = (1074 - k) * 2 ^ 52 + M"
  have lo: "2 ^ 52 \<le> M" and hi: "M < 2 ^ 53" and k52: "k \<le> 52"
    and n: "bitlen (int m) = 53 - int k"
    using f64_scaled_bounds [OF assms] by (simp_all add: k_def M_def)
  have "(1074 - k) * (2::nat) ^ 52 \<le> 1074 * 2 ^ 52"
    by (intro mult_le_mono1) simp
  then have magb: "mag < 1076 * 2 ^ 52" using hi by (simp add: mag_def)
  have qe: "max (0 + bitlen (int m) - 53) (- 1074) = - int k"
    using k52 by (simp add: n)
  have nt: "nat (1074 - int k) = 1074 - k"
    by simp
  have le: "min mag 0x7FF0000000000000 = mag"
    using magb by simp
  have "f64_round False m 0 = f64_pack False (min mag 0x7FF0000000000000)"
    unfolding f64_round_def Let_def qe
    using assms(1) by (simp add: nt mag_def M_def)
  then have r: "f64_of_int (int m) = word_of_nat mag"
    unfolding le by (simp add: f64_of_int_def f64_pack_def)
  have mg: "f64_magnitude (word_of_nat mag) = mag"
    using magb by (intro f64_magnitude_of_nat) simp
  have sg: "\<not> f64_signbit (word_of_nat mag)"
    using magb by (intro f64_signbit_of_nat) simp
  have mag2: "mag = (1075 - k) * 2 ^ 52 + (M - 2 ^ 52)"
    using lo k52 by (simp add: mag_def algebra_simps diff_mult_distrib)
  have small: "M - 2 ^ 52 < (2::nat) ^ 52" using hi lo by simp
  have dv: "mag div 2 ^ 52 = 1075 - k"
    using small by (simp add: mag2)
  have md: "mag mod 2 ^ 52 = M - 2 ^ 52"
    using small by (simp add: mag2)
  have mant: "f64_mant (word_of_nat mag) = M"
    using lo k52 dv md by (simp add: f64_mant_def mg Let_def)
  have expo: "f64_expo (word_of_nat mag) = - int k"
    using k52 dv by (simp add: f64_expo_def mg Let_def)
  have fin: "\<not> f64_isNaN (word_of_nat mag)" "\<not> f64_isInf (word_of_nat mag)"
    using magb by (simp_all add: f64_isNaN_def f64_isInf_def mg)
  show ?thesis
  proof (cases "k = 0")
    case True
    then show ?thesis
      by (simp add: r f64_to_int_def fin sg mant expo Let_def M_def)
  next
    case False
    then show ?thesis
      by (simp add: r f64_to_int_def fin sg mant expo Let_def M_def)
  qed
qed

lemma f64_of_int_0: "f64_of_int 0 = 0"
  by (simp add: f64_round_defs)

lemma f64_of_int_2_53: "f64_of_int 9007199254740992 = 0x4340000000000000"
proof -
  have "bitlen 9007199254740992 = 54" by (rule bitlen_eqI) simp_all
  then show ?thesis by (simp add: f64_round_defs)
qed

lemma f64_of_int_2_53_1: "f64_of_int 9007199254740993 = 0x4340000000000000"
proof -
  have "bitlen 9007199254740993 = 54" by (rule bitlen_eqI) simp_all
  then show ?thesis by (simp add: f64_round_defs)
qed

lemma f64_to_int_2_53: "f64_to_int 0x4340000000000000 = Some 9007199254740992"
  by (simp add: f64_read_defs)

lemma f64_of_int_exact:
  assumes "0 \<le> i" "i \<le> 2 ^ 53"
  shows "f64_to_int (f64_of_int i) = Some i"
proof -
  consider "i = 0" | "i = 2 ^ 53" | "0 < i \<and> i < 2 ^ 53"
    using assms by linarith
  then show ?thesis
  proof cases
    case 1
    have "f64_to_int (f64_of_int 0) = Some 0"
      unfolding f64_of_int_0 by (simp add: f64_read_defs)
    with 1 show ?thesis by simp
  next
    case 2
    have "f64_to_int (f64_of_int 9007199254740992) = Some 9007199254740992"
      unfolding f64_of_int_2_53 by (rule f64_to_int_2_53)
    with 2 show ?thesis by simp
  next
    case 3
    then have "0 < nat i" "nat i < 2 ^ 53" by (simp_all add: nat_less_iff)
    from f64_of_int_exact_small [OF this] 3 show ?thesis by simp
  qed
qed

lemma sint32_le_2_53: "sint (v :: 32 word) \<le> 2 ^ 53"
proof -
  have "sint v < 2 ^ (LENGTH(32) - 1)" by (rule sint_lt)
  then show ?thesis by simp
qed

end
